theory Spec2Isabelle
  imports Complex_Main "HOL-Library.Monad_Syntax"
begin

section \<open>Exceptions\<close>

text \<open>
  The exception classes of \<^verbatim>\<open>utils/exceptions.py\<close>, together with the built-in ones that
  the modelled code can meet. \<^verbatim>\<open>VendorError\<close> stands for whatever the vendor SDK, the
  object-storage SDK or a wrapped operation raises. Every class below derives from
  Python's \<^verbatim>\<open>Exception\<close>, so \<^verbatim>\<open>except Exception\<close> catches each of them. An exception
  value carries its class and the text that \<^verbatim>\<open>str(e)\<close> returns.
\<close>

datatype exc_kind =
    TableauAPIError | AuthenticationError | ConfigurationError | ConnectionError
  | MetadataError | StorageError
  | TypeError | ValueError | KeyError | AttributeError | OSError | VendorError

datatype exc = Exc (exc_class: exc_kind) (exc_str: string)

section \<open>Authentication configuration from the environment (core/auth.py)\<close>

datatype AuthMethod = PERSONAL_ACCESS_TOKEN | USERNAME_PASSWORD | JWT

record AuthConfig =
  ac_server_url :: string
  ac_site_id :: string
  ac_auth_method :: AuthMethod
  ac_token_name :: "string option"
  ac_token_value :: "string option"
  ac_username :: "string option"
  ac_password :: "string option"
  ac_jwt_token :: "string option"

text \<open>The process environment: a variable is either unset or set to a string.\<close>

type_synonym environ = "string \<rightharpoonup> string"

definition getenv :: "environ \<Rightarrow> string \<Rightarrow> string option" where
  "getenv env k = env k"

definition getenv_default :: "environ \<Rightarrow> string \<Rightarrow> string \<Rightarrow> string" where
  "getenv_default env k d = (case env k of None \<Rightarrow> d | Some v \<Rightarrow> v)"

text \<open>
  Python truth value of an \<^verbatim>\<open>Optional[str]\<close>: \<^verbatim>\<open>None\<close> and the empty string are false.
\<close>

definition truthy :: "string option \<Rightarrow> bool" where
  "truthy v = (case v of None \<Rightarrow> False | Some s \<Rightarrow> s \<noteq> [])"

definition create_auth_config_from_env :: "environ \<Rightarrow> exc + AuthConfig" where
  "create_auth_config_from_env env =
     (let server_url = getenv env ''TABLEAU_SERVER_URL'' in
      if \<not> truthy server_url then
        Inl (Exc ConfigurationError ''TABLEAU_SERVER_URL environment variable required'')
      else
        let site_id = getenv_default env ''TABLEAU_SITE_ID'' '''';
            token_name = getenv env ''TABLEAU_TOKEN_NAME'';
            token_value = getenv env ''TABLEAU_TOKEN_VALUE'' in
        if truthy token_name \<and> truthy token_value then
          Inr \<lparr>ac_server_url = the server_url, ac_site_id = site_id,
               ac_auth_method = PERSONAL_ACCESS_TOKEN,
               ac_token_name = token_name, ac_token_value = token_value,
               ac_username = None, ac_password = None, ac_jwt_token = None\<rparr>
        else
          let username = getenv env ''TABLEAU_USERNAME'';
              password = getenv env ''TABLEAU_PASSWORD'' in
          if truthy username \<and> truthy password then
            Inr \<lparr>ac_server_url = the server_url, ac_site_id = site_id,
                 ac_auth_method = USERNAME_PASSWORD,
                 ac_token_name = None, ac_token_value = None,
                 ac_username = username, ac_password = password, ac_jwt_token = None\<rparr>
          else
            let jwt_token = getenv env ''TABLEAU_JWT_TOKEN'' in
            if truthy jwt_token then
              Inr \<lparr>ac_server_url = the server_url, ac_site_id = site_id,
                   ac_auth_method = JWT,
                   ac_token_name = None, ac_token_value = None,
                   ac_username = None, ac_password = None, ac_jwt_token = jwt_token\<rparr>
            else
              Inl (Exc ConfigurationError
                    ''No valid authentication credentials found in environment variables''))"

text \<open>What the resolver selects: the method of the configuration, or the class raised.\<close>

definition selected :: "exc + AuthConfig \<Rightarrow> exc_kind + AuthMethod" where
  "selected r = (case r of Inl e \<Rightarrow> Inl (exc_class e) | Inr c \<Rightarrow> Inr (ac_auth_method c))"

definition is_set :: "environ \<Rightarrow> string \<Rightarrow> bool" where
  "is_set env k = (env k \<noteq> None)"

definition nonempty :: "environ \<Rightarrow> string \<Rightarrow> bool" where
  "nonempty env k = truthy (env k)"

text \<open>An environment in which the token name is set, but to the empty string.\<close>

definition env_blank_token :: environ where
  "env_blank_token = map_of
     [(''TABLEAU_SERVER_URL'', ''https://tableau.example.com''),
      (''TABLEAU_TOKEN_NAME'', ''''),
      (''TABLEAU_TOKEN_VALUE'', ''secret''),
      (''TABLEAU_USERNAME'', ''alice''),
      (''TABLEAU_PASSWORD'', ''pw'')]"

definition env_pat :: environ where
  "env_pat = map_of
     [(''TABLEAU_SERVER_URL'', ''https://tableau.example.com''),
      (''TABLEAU_TOKEN_NAME'', ''ci''),
      (''TABLEAU_TOKEN_VALUE'', ''secret''),
      (''TABLEAU_USERNAME'', ''alice''),
      (''TABLEAU_PASSWORD'', ''pw'')]"

section \<open>Retry wrappers (core/client.py, utils/helpers.py)\<close>

text \<open>
  A wrapped operation is a call with side effects: run in a state of the outside world, it
  either raises or returns a value, and leaves a new state. The wrappers themselves act on
  the world only through the operation and through \<^verbatim>\<open>time.sleep\<close>; the delays slept
  are collected in order. Delays are Python floats; every delay here is a start delay times
  a power of two, which floats compute exactly, so they are modelled as rationals.
\<close>

type_synonym ('s, 'a) operation = "'s \<Rightarrow> (exc + 'a) \<times> 's"

text \<open>\<^verbatim>\<open>range(n)\<close> for a Python int \<open>n\<close>.\<close>

definition py_range :: "int \<Rightarrow> int list" where
  "py_range n = map int [0..<nat n]"

record TableauClient =
  retry_count :: int
  retry_delay :: rat

definition TableauClient_init :: TableauClient where
  "TableauClient_init = \<lparr>retry_count = 3, retry_delay = 1\<rparr>"

text \<open>
  The body of \<^verbatim>\<open>TableauClient._retry_operation\<close>, over the attempts still to run. The
  result is what the call returns or raises (\<open>None\<close> when the loop ends without a
  \<^verbatim>\<open>return\<close>), the state the operation left, and the delays slept.
\<close>

fun retry_operation_loop ::
  "TableauClient \<Rightarrow> ('s, 'a) operation \<Rightarrow> int list \<Rightarrow> 's \<Rightarrow> rat list \<Rightarrow>
   (exc + 'a option) \<times> 's \<times> rat list" where
  "retry_operation_loop self operation [] s slept = (Inr None, s, slept)"
| "retry_operation_loop self operation (attempt # rest) s slept =
     (case operation s of
        (Inr v, s') \<Rightarrow> (Inr (Some v), s', slept)
      | (Inl e, s') \<Rightarrow>
          if attempt = retry_count self - 1 then (Inl e, s', slept)
          else retry_operation_loop self operation rest s'
                 (slept @ [retry_delay self * 2 ^ nat attempt]))"

definition retry_operation ::
  "TableauClient \<Rightarrow> ('s, 'a) operation \<Rightarrow> 's \<Rightarrow> (exc + 'a option) \<times> 's \<times> rat list" where
  "retry_operation self operation s =
     retry_operation_loop self operation (py_range (retry_count self)) s []"

text \<open>
  \<^verbatim>\<open>retry_on_failure(func, max_retries, delay)\<close>; the local variable \<^verbatim>\<open>delay\<close> is
  doubled after each sleep.
\<close>

fun retry_on_failure_loop ::
  "('s, 'a) operation \<Rightarrow> int \<Rightarrow> int list \<Rightarrow> rat \<Rightarrow> 's \<Rightarrow> rat list \<Rightarrow>
   (exc + 'a option) \<times> 's \<times> rat list" where
  "retry_on_failure_loop func max_retries [] delay s slept = (Inr None, s, slept)"
| "retry_on_failure_loop func max_retries (attempt # rest) delay s slept =
     (case func s of
        (Inr v, s') \<Rightarrow> (Inr (Some v), s', slept)
      | (Inl e, s') \<Rightarrow>
          if attempt = max_retries - 1 then (Inl e, s', slept)
          else retry_on_failure_loop func max_retries rest (delay * 2) s' (slept @ [delay]))"

definition retry_on_failure ::
  "('s, 'a) operation \<Rightarrow> int \<Rightarrow> rat \<Rightarrow> 's \<Rightarrow> (exc + 'a option) \<times> 's \<times> rat list" where
  "retry_on_failure func max_retries delay s =
     retry_on_failure_loop func max_retries (py_range max_retries) delay s []"

text \<open>
  An operation for the examples: the state counts the calls made; the first two calls time
  out, later ones return 42.
\<close>

definition flaky :: "(nat, int) operation" where
  "flaky n = (if n < 2 then Inl (Exc VendorError ''timed out'') else Inr 42, Suc n)"

section \<open>Data model (core/metadata.py)\<close>

text \<open>
  A Python \<^verbatim>\<open>datetime\<close>: the calendar fields and, for an aware value, the UTC offset of its
  \<^verbatim>\<open>tzinfo\<close> in microseconds (the resolution of \<^verbatim>\<open>timedelta\<close>); \<open>None\<close> is a naive
  value.
\<close>

record datetime =
  dt_year :: nat
  dt_month :: nat
  dt_day :: nat
  dt_hour :: nat
  dt_minute :: nat
  dt_second :: nat
  dt_microsecond :: nat
  dt_utcoffset :: "int option"

text \<open>
  Values of the fields annotated \<^verbatim>\<open>Any\<close> (views, connections, lineage) and of parsed JSON
  documents: \<^verbatim>\<open>None\<close>, booleans, integers, strings, datetimes, lists and
  string-keyed dictionaries (in insertion order).
\<close>

datatype pyval =
    PNone | PBool bool | PInt int | PStr string | PDatetime datetime
  | PList "pyval list" | PDict "(string \<times> pyval) list"

record WorkbookMetadata =
  wb_id :: string
  wb_name :: string
  wb_description :: "string option"
  wb_project_id :: string
  wb_project_name :: string
  wb_owner_id :: string
  wb_owner_name :: string
  wb_created_at :: "datetime option"
  wb_updated_at :: "datetime option"
  wb_size :: "int option"
  wb_webpage_url :: "string option"
  wb_show_tabs :: "bool option"
  wb_content_url :: "string option"
  wb_views :: "pyval list"
  wb_connections :: "pyval list"
  wb_tags :: "string list"
  wb_lineage :: "pyval option"

record DatasourceMetadata =
  ds_id :: string
  ds_name :: string
  ds_description :: "string option"
  ds_project_id :: string
  ds_project_name :: string
  ds_owner_id :: string
  ds_owner_name :: string
  ds_created_at :: "datetime option"
  ds_updated_at :: "datetime option"
  ds_size :: "int option"
  ds_webpage_url :: "string option"
  ds_content_url :: "string option"
  ds_connections :: "pyval list"
  ds_tags :: "string list"
  ds_lineage :: "pyval option"

record ProjectMetadata =
  pj_id :: string
  pj_name :: string
  pj_description :: "string option"
  pj_parent_id :: "string option"
  pj_content_permissions :: "string option"
  pj_created_at :: "datetime option"
  pj_updated_at :: "datetime option"
  pj_workbook_count :: int
  pj_datasource_count :: int
  pj_flow_count :: int

record FlowMetadata =
  fl_id :: string
  fl_name :: string
  fl_description :: "string option"
  fl_project_id :: string
  fl_project_name :: string
  fl_owner_id :: string
  fl_owner_name :: string
  fl_created_at :: "datetime option"
  fl_updated_at :: "datetime option"
  fl_webpage_url :: "string option"
  fl_tags :: "string list"

record ServerMetadata =
  server_url :: string
  version :: string
  rest_api_version :: string
  site_id :: string
  site_name :: string
  timestamp :: datetime
  workbooks :: "WorkbookMetadata list"
  datasources :: "DatasourceMetadata list"
  projects :: "ProjectMetadata list"
  flows :: "FlowMetadata list"

section \<open>Files and objects\<close>

text \<open>
  A cell handed to the \<^verbatim>\<open>csv\<close> writer, which writes \<^verbatim>\<open>str\<close> of it. The text of a file is
  kept as what it denotes: a JSON document (the value \<^verbatim>\<open>json.loads\<close> returns for it), the
  rows of a CSV file, or any other text. A file holds a text either plain or
  gzip-compressed. A path of the local file system names a directory, a file, or nothing.
\<close>

datatype cell = CStr string | CInt int | CBool bool

datatype file_text = JsonText pyval | CsvText "cell list list" | OtherText string

datatype file_data = Plain file_text | Gzipped file_text

datatype node = Dir | File file_data

text \<open>
  A \<^verbatim>\<open>pathlib\<close> path: whether it is absolute, and its parts. \<^verbatim>\<open>Path(s)\<close> splits the
  string at the slashes and drops empty parts and the part \<^verbatim>\<open>.\<close>; \<^verbatim>\<open>p / s\<close> is
  \<^verbatim>\<open>Path(s)\<close> when that is absolute, and else continues \<open>p\<close> with its parts. (A path that
  begins with exactly two slashes, which POSIX keeps apart, is read as an absolute one.)
\<close>

type_synonym path = "bool \<times> string list"




text \<open>
  The local file system: what each path names, the paths on which the operating system
  refuses the process every change (removing, creating, opening for writing) with a
  PermissionError, as in a read-only directory, and the paths it refuses to open for
  reading. The empty relative path is the working directory and the empty absolute path
  the root; both are directories.
\<close>

record filesystem =
  nodes :: "path \<rightharpoonup> node"
  denied :: "path set"
  unreadable :: "path set"

definition is_dir :: "filesystem \<Rightarrow> path \<Rightarrow> bool" where
  "is_dir fs p = (snd p = [] \<or> nodes fs p = Some Dir)"



section \<open>Storage backends: delete (core/storage.py)\<close>











section \<open>Authenticator (core/auth.py)\<close>

text \<open>
  The vendor SDK's server object, as far as the authenticator uses it: whether it holds an
  auth token (\<^verbatim>\<open>is_signed_in()\<close>), and how many requests it has sent. The Tableau server
  is outside the program: \<open>net k\<close> is its answer to the \<open>k\<close>-th request, either accepting
  it or making the SDK raise an exception with the given text. A sign-in that is accepted
  stores the token; a sign-out sends nothing when no token is held, and clears the token
  when it is accepted.
\<close>

datatype reply = Accepted | Refused string

type_synonym network = "nat \<Rightarrow> reply"

record TSC_Server =
  srv_signed_in :: bool
  srv_requests :: nat

datatype auth_object =
    PersonalAccessTokenAuth string string string
  | TableauAuth string string string
  | JWTAuth string

record TableauAuthenticator =
  config :: AuthConfig
  server :: TSC_Server

definition is_signed_in :: "TSC_Server \<Rightarrow> bool" where
  "is_signed_in srv = srv_signed_in srv"

definition post_request :: "network \<Rightarrow> TSC_Server \<Rightarrow> (exc + unit) \<times> TSC_Server" where
  "post_request net srv =
     (let srv' = srv\<lparr>srv_requests := Suc (srv_requests srv)\<rparr> in
      case net (srv_requests srv) of
        Accepted \<Rightarrow> (Inr (), srv')
      | Refused m \<Rightarrow> (Inl (Exc VendorError m), srv'))"

definition auth_sign_in ::
  "network \<Rightarrow> TSC_Server \<Rightarrow> auth_object \<Rightarrow> (exc + unit) \<times> TSC_Server" where
  "auth_sign_in net srv auth_req =
     (case post_request net srv of
        (Inl e, srv') \<Rightarrow> (Inl e, srv')
      | (Inr u, srv') \<Rightarrow> (Inr (), srv'\<lparr>srv_signed_in := True\<rparr>))"

definition auth_sign_out :: "network \<Rightarrow> TSC_Server \<Rightarrow> (exc + unit) \<times> TSC_Server" where
  "auth_sign_out net srv =
     (if \<not> is_signed_in srv then (Inr (), srv)
      else case post_request net srv of
        (Inl e, srv') \<Rightarrow> (Inl e, srv')
      | (Inr u, srv') \<Rightarrow> (Inr (), srv'\<lparr>srv_signed_in := False\<rparr>))"

definition TableauAuthenticator_init :: "AuthConfig \<Rightarrow> TableauAuthenticator" where
  "TableauAuthenticator_init c =
     \<lparr>config = c, server = \<lparr>srv_signed_in = False, srv_requests = 0\<rparr>\<rparr>"

text \<open>
  \<^verbatim>\<open>create_auth_object\<close>. The three methods of the enumeration are all the values
  \<^verbatim>\<open>auth_method\<close> has, so the final \<^verbatim>\<open>else\<close> of the source has no case here.
\<close>

definition create_auth_object :: "AuthConfig \<Rightarrow> exc + auth_object" where
  "create_auth_object c =
     (case ac_auth_method c of
        PERSONAL_ACCESS_TOKEN \<Rightarrow>
          if \<not> truthy (ac_token_name c) \<or> \<not> truthy (ac_token_value c) then
            Inl (Exc AuthenticationError ''Token name and value required for PAT authentication'')
          else Inr (PersonalAccessTokenAuth (the (ac_token_name c)) (the (ac_token_value c))
                     (ac_site_id c))
      | USERNAME_PASSWORD \<Rightarrow>
          if \<not> truthy (ac_username c) \<or> \<not> truthy (ac_password c) then
            Inl (Exc AuthenticationError
                  ''Username and password required for credential authentication'')
          else Inr (TableauAuth (the (ac_username c)) (the (ac_password c)) (ac_site_id c))
      | JWT \<Rightarrow>
          if \<not> truthy (ac_jwt_token c) then
            Inl (Exc AuthenticationError ''JWT token required for JWT authentication'')
          else Inr (JWTAuth (the (ac_jwt_token c))))"

text \<open>The \<^verbatim>\<open>try\<close> blocks of \<^verbatim>\<open>authenticate\<close> and \<^verbatim>\<open>sign_out\<close>, then the methods.\<close>

definition authenticate_try ::
  "network \<Rightarrow> TableauAuthenticator \<Rightarrow> (exc + TSC_Server) \<times> TableauAuthenticator" where
  "authenticate_try net self =
     (case create_auth_object (config self) of
        Inl e \<Rightarrow> (Inl e, self)
      | Inr auth_obj \<Rightarrow>
          (case auth_sign_in net (server self) auth_obj of
             (Inl e, srv') \<Rightarrow> (Inl e, self\<lparr>server := srv'\<rparr>)
           | (Inr u, srv') \<Rightarrow> (Inr srv', self\<lparr>server := srv'\<rparr>)))"

definition authenticate ::
  "network \<Rightarrow> TableauAuthenticator \<Rightarrow> (exc + TSC_Server) \<times> TableauAuthenticator" where
  "authenticate net self =
     (case authenticate_try net self of
        (Inl e, self') \<Rightarrow>
          (Inl (Exc AuthenticationError (''Authentication failed: '' @ exc_str e)), self')
      | (Inr srv, self') \<Rightarrow> (Inr srv, self'))"

definition sign_out_try ::
  "network \<Rightarrow> TableauAuthenticator \<Rightarrow> (exc + unit) \<times> TableauAuthenticator" where
  "sign_out_try net self =
     (if is_signed_in (server self) then
        (case auth_sign_out net (server self) of
           (r, srv') \<Rightarrow> (r, self\<lparr>server := srv'\<rparr>))
      else (Inr (), self))"

definition sign_out ::
  "network \<Rightarrow> TableauAuthenticator \<Rightarrow> (exc + unit) \<times> TableauAuthenticator" where
  "sign_out net self =
     (case sign_out_try net self of
        (Inl e, self') \<Rightarrow>
          (Inl (Exc AuthenticationError (''Sign out failed: '' @ exc_str e)), self')
      | (Inr u, self') \<Rightarrow> (Inr (), self'))"

text \<open>
  Two calls in a row, as a program makes them: the second runs only when the first returned;
  an exception of the first ends the sequence.
\<close>

definition then_call ::
  "('s \<Rightarrow> (exc + 'a) \<times> 's) \<Rightarrow> ('s \<Rightarrow> (exc + 'b) \<times> 's) \<Rightarrow> 's \<Rightarrow> (exc + 'b) \<times> 's" where
  "then_call f g s = (case f s of (Inl e, s') \<Rightarrow> (Inl e, s') | (Inr x, s') \<Rightarrow> g s')"

definition pat_config :: AuthConfig where
  "pat_config = \<lparr>ac_server_url = ''https://tableau.example.com'', ac_site_id = '''',
     ac_auth_method = PERSONAL_ACCESS_TOKEN, ac_token_name = Some ''ci'',
     ac_token_value = Some ''secret'', ac_username = None, ac_password = None,
     ac_jwt_token = None\<rparr>"

definition net_down :: network where
  "net_down k = Refused ''connection reset''"

definition signed_in_authenticator :: TableauAuthenticator where
  "signed_in_authenticator =
     \<lparr>config = pat_config, server = \<lparr>srv_signed_in = True, srv_requests = 1\<rparr>\<rparr>"

section \<open>Comparing datetimes\<close>

text \<open>
  Python's \<^verbatim>\<open>datetime\<close> ordering. Two values with the same UTC offset (both naive, or
  both aware with equal offsets) are compared field by field; a naive and an aware value
  cannot be ordered and the comparison raises TypeError; two aware values with different
  offsets are compared as instants, from the proleptic Gregorian ordinal of the date.
\<close>

definition is_leap :: "nat \<Rightarrow> bool" where
  "is_leap y = (y mod 4 = 0 \<and> (y mod 100 \<noteq> 0 \<or> y mod 400 = 0))"

definition days_in_month :: "nat \<Rightarrow> nat \<Rightarrow> nat" where
  "days_in_month y m =
     (if m = 2 then (if is_leap y then 29 else 28)
      else if m = 4 \<or> m = 6 \<or> m = 9 \<or> m = 11 then 30 else 31)"

definition days_before_year :: "nat \<Rightarrow> int" where
  "days_before_year y =
     (let y1 = int y - 1 in y1 * 365 + y1 div 4 - y1 div 100 + y1 div 400)"

definition days_before_month :: "nat \<Rightarrow> nat \<Rightarrow> int" where
  "days_before_month y m = (\<Sum>k \<leftarrow> [1..<m]. int (days_in_month y k))"

definition toordinal :: "datetime \<Rightarrow> int" where
  "toordinal d =
     days_before_year (dt_year d) + days_before_month (dt_year d) (dt_month d) + int (dt_day d)"

text \<open>Microseconds from the start of ordinal day 0 to the wall-clock reading.\<close>

definition wall_micros :: "datetime \<Rightarrow> int" where
  "wall_micros d =
     ((toordinal d * 86400
        + int (dt_hour d) * 3600 + int (dt_minute d) * 60 + int (dt_second d)) * 1000000)
      + int (dt_microsecond d)"

definition dt_fields :: "datetime \<Rightarrow> nat list" where
  "dt_fields d =
     [dt_year d, dt_month d, dt_day d, dt_hour d, dt_minute d, dt_second d, dt_microsecond d]"

fun cmp_fields :: "nat list \<Rightarrow> nat list \<Rightarrow> int" where
  "cmp_fields [] [] = 0"
| "cmp_fields [] (y # ys) = -1"
| "cmp_fields (x # xs) [] = 1"
| "cmp_fields (x # xs) (y # ys) =
     (if x < y then -1 else if y < x then 1 else cmp_fields xs ys)"

definition dt_cmp :: "datetime \<Rightarrow> datetime \<Rightarrow> exc + int" where
  "dt_cmp a b =
     (if dt_utcoffset a = dt_utcoffset b then Inr (cmp_fields (dt_fields a) (dt_fields b))
      else case (dt_utcoffset a, dt_utcoffset b) of
        (Some myoff, Some otoff) \<Rightarrow>
          (let diff = (wall_micros a - myoff) - (wall_micros b - otoff) in
           Inr (if diff < 0 then -1 else if diff = 0 then 0 else 1))
      | _ \<Rightarrow> Inl (Exc TypeError ''can't compare offset-naive and offset-aware datetimes''))"

text \<open>\<^verbatim>\<open>a >= b\<close> on datetimes.\<close>

definition dt_ge :: "datetime \<Rightarrow> datetime \<Rightarrow> exc + bool" where
  "dt_ge a b = (case dt_cmp a b of Inl e \<Rightarrow> Inl e | Inr c \<Rightarrow> Inr (0 \<le> c))"

section \<open>Filtering (core/metadata.py)\<close>

text \<open>
  The filter dictionary: each of the four keys the code looks at is absent or holds its
  value, a list of names, a list of tags or a datetime.
\<close>

record filters =
  project_names :: "string list option"
  owner_names :: "string list option"
  tags :: "string list option"
  updated_since :: "datetime option"

text \<open>
  The comprehension \<^verbatim>\<open>[x for x in xs if x.updated_at and x.updated_at >= updated_since]\<close>:
  the elements are tested in order; an element without \<^verbatim>\<open>updated_at\<close> is dropped without a
  comparison (a datetime is always true); a comparison that raises ends the comprehension.
\<close>

fun updated_at_least :: "datetime \<Rightarrow> ('a \<Rightarrow> datetime option) \<Rightarrow> 'a list \<Rightarrow> exc + 'a list" where
  "updated_at_least since upd [] = Inr []"
| "updated_at_least since upd (x # xs) =
     (case upd x of
        None \<Rightarrow> updated_at_least since upd xs
      | Some t \<Rightarrow>
          (case dt_ge t since of
             Inl e \<Rightarrow> Inl e
           | Inr keep \<Rightarrow>
               (case updated_at_least since upd xs of
                  Inl e \<Rightarrow> Inl e
                | Inr ys \<Rightarrow> Inr (if keep then x # ys else ys))))"

text \<open>\<^verbatim>\<open>any(tag in item_tags for tag in tags)\<close>\<close>

definition any_tag_in :: "string list \<Rightarrow> string list \<Rightarrow> bool" where
  "any_tag_in tgs item_tags = list_ex (\<lambda>tag. List.member item_tags tag) tgs"

type_synonym entity_lists =
  "WorkbookMetadata list \<times> DatasourceMetadata list \<times> ProjectMetadata list \<times> FlowMetadata list"

definition filter_project_names :: "filters \<Rightarrow> entity_lists \<Rightarrow> entity_lists" where
  "filter_project_names f ls =
     (case (project_names f, ls) of
        (None, _) \<Rightarrow> ls
      | (Some pn, (fw, fd, fp, ff)) \<Rightarrow>
          (filter (\<lambda>wb. List.member pn (wb_project_name wb)) fw,
           filter (\<lambda>ds. List.member pn (ds_project_name ds)) fd,
           filter (\<lambda>p. List.member pn (pj_name p)) fp,
           filter (\<lambda>f. List.member pn (fl_project_name f)) ff))"

definition filter_owner_names :: "filters \<Rightarrow> entity_lists \<Rightarrow> entity_lists" where
  "filter_owner_names f ls =
     (case (owner_names f, ls) of
        (None, _) \<Rightarrow> ls
      | (Some ow, (fw, fd, fp, ff)) \<Rightarrow>
          (filter (\<lambda>wb. List.member ow (wb_owner_name wb)) fw,
           filter (\<lambda>ds. List.member ow (ds_owner_name ds)) fd,
           fp,
           filter (\<lambda>f. List.member ow (fl_owner_name f)) ff))"

definition filter_tags :: "filters \<Rightarrow> entity_lists \<Rightarrow> entity_lists" where
  "filter_tags f ls =
     (case (tags f, ls) of
        (None, _) \<Rightarrow> ls
      | (Some tgs, (fw, fd, fp, ff)) \<Rightarrow>
          (filter (\<lambda>wb. any_tag_in tgs (wb_tags wb)) fw,
           filter (\<lambda>ds. any_tag_in tgs (ds_tags ds)) fd,
           fp,
           filter (\<lambda>f. any_tag_in tgs (fl_tags f)) ff))"

definition filter_updated_since :: "filters \<Rightarrow> entity_lists \<Rightarrow> exc + entity_lists" where
  "filter_updated_since f ls =
     (case (updated_since f, ls) of
        (None, _) \<Rightarrow> Inr ls
      | (Some since, (fw, fd, fp, ff)) \<Rightarrow>
          (case updated_at_least since wb_updated_at fw of
             Inl e \<Rightarrow> Inl e
           | Inr fw' \<Rightarrow>
          (case updated_at_least since ds_updated_at fd of
             Inl e \<Rightarrow> Inl e
           | Inr fd' \<Rightarrow>
          (case updated_at_least since fl_updated_at ff of
             Inl e \<Rightarrow> Inl e
           | Inr ff' \<Rightarrow> Inr (fw', fd', fp, ff')))))"

text \<open>The \<^verbatim>\<open>try\<close> block of \<^verbatim>\<open>filter_metadata\<close>, then the method.\<close>

definition filter_metadata_try :: "ServerMetadata \<Rightarrow> filters \<Rightarrow> exc + ServerMetadata" where
  "filter_metadata_try metadata f =
     (let ls = (workbooks metadata, datasources metadata, projects metadata, flows metadata);
          ls = filter_project_names f ls;
          ls = filter_owner_names f ls;
          ls = filter_tags f ls in
      case filter_updated_since f ls of
        Inl e \<Rightarrow> Inl e
      | Inr (filtered_workbooks, filtered_datasources, filtered_projects, filtered_flows) \<Rightarrow>
          Inr \<lparr>server_url = server_url metadata,
               version = version metadata,
               rest_api_version = rest_api_version metadata,
               site_id = site_id metadata,
               site_name = site_name metadata,
               timestamp = timestamp metadata,
               workbooks = filtered_workbooks,
               datasources = filtered_datasources,
               projects = filtered_projects,
               flows = filtered_flows\<rparr>)"

definition filter_metadata :: "ServerMetadata \<Rightarrow> filters \<Rightarrow> exc + ServerMetadata" where
  "filter_metadata metadata f =
     (case filter_metadata_try metadata f of
        Inl e \<Rightarrow> Inl (Exc MetadataError (''Failed to filter metadata: '' @ exc_str e))
      | Inr m \<Rightarrow> Inr m)"

text \<open>
  The predicates of the filter, as total tests; an absent key constrains nothing. The
  update-time floor holds for an item that has an \<^verbatim>\<open>updated_at\<close> for which the comparison
  with the floor returns true. A naive and an aware datetime clash: comparing them raises.
\<close>

definition in_names :: "string list option \<Rightarrow> string \<Rightarrow> bool" where
  "in_names names x = (case names of None \<Rightarrow> True | Some ns \<Rightarrow> List.member ns x)"

definition has_any_tag :: "string list option \<Rightarrow> string list \<Rightarrow> bool" where
  "has_any_tag wanted item_tags =
     (case wanted of None \<Rightarrow> True | Some tgs \<Rightarrow> any_tag_in tgs item_tags)"

definition not_before :: "datetime option \<Rightarrow> datetime option \<Rightarrow> bool" where
  "not_before bound u =
     (case bound of
        None \<Rightarrow> True
      | Some since \<Rightarrow> (case u of None \<Rightarrow> False | Some t \<Rightarrow> dt_ge t since = Inr True))"

definition clash :: "datetime option \<Rightarrow> datetime option \<Rightarrow> bool" where
  "clash bound u =
     (case (bound, u) of
        (Some since, Some t) \<Rightarrow> (dt_utcoffset t = None) \<noteq> (dt_utcoffset since = None)
      | _ \<Rightarrow> False)"

text \<open>
  The filter as the conjunction of the predicates: on workbooks, data sources and flows all
  four of them; on projects the project-name test alone, applied to the project's own name.
\<close>

definition wb_keep :: "filters \<Rightarrow> WorkbookMetadata \<Rightarrow> bool" where
  "wb_keep f wb =
     (in_names (project_names f) (wb_project_name wb) \<and>
      in_names (owner_names f) (wb_owner_name wb) \<and>
      has_any_tag (tags f) (wb_tags wb) \<and>
      not_before (updated_since f) (wb_updated_at wb))"

definition ds_keep :: "filters \<Rightarrow> DatasourceMetadata \<Rightarrow> bool" where
  "ds_keep f ds =
     (in_names (project_names f) (ds_project_name ds) \<and>
      in_names (owner_names f) (ds_owner_name ds) \<and>
      has_any_tag (tags f) (ds_tags ds) \<and>
      not_before (updated_since f) (ds_updated_at ds))"

definition fl_keep :: "filters \<Rightarrow> FlowMetadata \<Rightarrow> bool" where
  "fl_keep f fl =
     (in_names (project_names f) (fl_project_name fl) \<and>
      in_names (owner_names f) (fl_owner_name fl) \<and>
      has_any_tag (tags f) (fl_tags fl) \<and>
      not_before (updated_since f) (fl_updated_at fl))"

definition pj_keep :: "filters \<Rightarrow> ProjectMetadata \<Rightarrow> bool" where
  "pj_keep f p = in_names (project_names f) (pj_name p)"

definition conjunction_filter :: "ServerMetadata \<Rightarrow> filters \<Rightarrow> ServerMetadata" where
  "conjunction_filter m f =
     m\<lparr>workbooks := filter (wb_keep f) (workbooks m),
       datasources := filter (ds_keep f) (datasources m),
       projects := filter (pj_keep f) (projects m),
       flows := filter (fl_keep f) (flows m)\<rparr>"

text \<open>No \<^verbatim>\<open>updated_at\<close> of a workbook, data source or flow clashes with the floor.\<close>

definition floor_comparable :: "ServerMetadata \<Rightarrow> filters \<Rightarrow> bool" where
  "floor_comparable m f =
     (list_all (\<lambda>wb. \<not> clash (updated_since f) (wb_updated_at wb)) (workbooks m) \<and>
      list_all (\<lambda>ds. \<not> clash (updated_since f) (ds_updated_at ds)) (datasources m) \<and>
      list_all (\<lambda>fl. \<not> clash (updated_since f) (fl_updated_at fl)) (flows m))"

text \<open>
  Two filter dictionaries with disjoint key sets, their union, and filtering with one and
  then, if that returned, with the other.
\<close>

definition disjoint_keys :: "filters \<Rightarrow> filters \<Rightarrow> bool" where
  "disjoint_keys a b =
     ((project_names a = None \<or> project_names b = None) \<and>
      (owner_names a = None \<or> owner_names b = None) \<and>
      (tags a = None \<or> tags b = None) \<and>
      (updated_since a = None \<or> updated_since b = None))"

definition union_filters :: "filters \<Rightarrow> filters \<Rightarrow> filters" where
  "union_filters a b =
     \<lparr>project_names = (case project_names a of None \<Rightarrow> project_names b | Some v \<Rightarrow> Some v),
      owner_names = (case owner_names a of None \<Rightarrow> owner_names b | Some v \<Rightarrow> Some v),
      tags = (case tags a of None \<Rightarrow> tags b | Some v \<Rightarrow> Some v),
      updated_since = (case updated_since a of None \<Rightarrow> updated_since b | Some v \<Rightarrow> Some v)\<rparr>"

definition filter_twice :: "ServerMetadata \<Rightarrow> filters \<Rightarrow> filters \<Rightarrow> exc + ServerMetadata" where
  "filter_twice m a b =
     (case filter_metadata m a of Inl e \<Rightarrow> Inl e | Inr m1 \<Rightarrow> filter_metadata m1 b)"

definition type_error :: exc where
  "type_error = Exc TypeError ''can't compare offset-naive and offset-aware datetimes''"

text \<open>
  When the filter raises: some workbook, data source or flow that passes the name and tag
  tests has an \<^verbatim>\<open>updated_at\<close> that clashes with the floor.
\<close>

definition filter_raises :: "ServerMetadata \<Rightarrow> filters \<Rightarrow> bool" where
  "filter_raises m f =
     (let g = f\<lparr>updated_since := None\<rparr> in
      list_ex (\<lambda>wb. clash (updated_since f) (wb_updated_at wb)) (filter (wb_keep g) (workbooks m)) \<or>
      list_ex (\<lambda>ds. clash (updated_since f) (ds_updated_at ds)) (filter (ds_keep g) (datasources m)) \<or>
      list_ex (\<lambda>fl. clash (updated_since f) (fl_updated_at fl)) (filter (fl_keep g) (flows m)))"



text \<open>Example data.\<close>

definition dt_2020_utc :: datetime where
  "dt_2020_utc = \<lparr>dt_year = 2020, dt_month = 1, dt_day = 1, dt_hour = 0, dt_minute = 0,
     dt_second = 0, dt_microsecond = 0, dt_utcoffset = Some 0\<rparr>"

definition dt_2024_utc :: datetime where
  "dt_2024_utc = \<lparr>dt_year = 2024, dt_month = 3, dt_day = 5, dt_hour = 12, dt_minute = 30,
     dt_second = 0, dt_microsecond = 0, dt_utcoffset = Some 0\<rparr>"

definition dt_2024_naive :: datetime where
  "dt_2024_naive = \<lparr>dt_year = 2024, dt_month = 3, dt_day = 5, dt_hour = 12, dt_minute = 30,
     dt_second = 0, dt_microsecond = 0, dt_utcoffset = None\<rparr>"

definition wb_sales :: WorkbookMetadata where
  "wb_sales = \<lparr>wb_id = ''w1'', wb_name = ''Sales report'', wb_description = None,
     wb_project_id = ''p1'', wb_project_name = ''Sales'', wb_owner_id = ''u1'',
     wb_owner_name = ''alice'', wb_created_at = Some dt_2020_utc,
     wb_updated_at = Some dt_2024_utc, wb_size = Some 3, wb_webpage_url = None,
     wb_show_tabs = Some True, wb_content_url = None, wb_views = [], wb_connections = [],
     wb_tags = [''finance''], wb_lineage = None\<rparr>"

definition pj_sales :: ProjectMetadata where
  "pj_sales = \<lparr>pj_id = ''p1'', pj_name = ''Sales'', pj_description = None,
     pj_parent_id = None, pj_content_permissions = None, pj_created_at = Some dt_2020_utc,
     pj_updated_at = Some dt_2020_utc, pj_workbook_count = 0, pj_datasource_count = 0,
     pj_flow_count = 0\<rparr>"

definition md_sales :: ServerMetadata where
  "md_sales = \<lparr>server_url = ''https://tableau.example.com'', version = ''2023.1'',
     rest_api_version = ''3.19'', site_id = ''site'', site_name = ''default'',
     timestamp = dt_2024_naive, workbooks = [wb_sales], datasources = [],
     projects = [pj_sales], flows = []\<rparr>"

definition no_filters :: filters where
  "no_filters = \<lparr>project_names = None, owner_names = None, tags = None, updated_since = None\<rparr>"

section \<open>Results about the environment resolver\<close>

text \<open>
  Claim C3, as stated, read with "set" as "present in the environment": refuted. With the
  server URL, the token name and the token value all set, the token name being the empty
  string, the resolver does not select the personal access token; it falls through to
  username/password.
\<close>

theorem C3_set_but_empty_counterexample:
  "is_set env_blank_token ''TABLEAU_SERVER_URL'' \<and>
   is_set env_blank_token ''TABLEAU_TOKEN_NAME'' \<and>
   is_set env_blank_token ''TABLEAU_TOKEN_VALUE'' \<and>
   selected (create_auth_config_from_env env_blank_token) = Inr USERNAME_PASSWORD"
  by (simp add: is_set_def env_blank_token_def create_auth_config_from_env_def
      getenv_def getenv_default_def truthy_def selected_def)

text \<open>
  Claim C3, amended: a variable counts only when it is set to a non-empty string. For every
  environment whose server URL is non-empty, the resolver selects the personal access token
  when token name and token value are both non-empty, otherwise username/password when both
  are non-empty, otherwise JWT when the JWT token is non-empty, and otherwise raises a
  ConfigurationError. The result is a function of the environment alone.
\<close>

theorem C3_env_precedence:
  assumes "nonempty env ''TABLEAU_SERVER_URL''"
  shows "selected (create_auth_config_from_env env) =
     (if nonempty env ''TABLEAU_TOKEN_NAME'' \<and> nonempty env ''TABLEAU_TOKEN_VALUE''
        then Inr PERSONAL_ACCESS_TOKEN
      else if nonempty env ''TABLEAU_USERNAME'' \<and> nonempty env ''TABLEAU_PASSWORD''
        then Inr USERNAME_PASSWORD
      else if nonempty env ''TABLEAU_JWT_TOKEN'' then Inr JWT
      else Inl ConfigurationError)"
  using assms
  by (simp add: nonempty_def create_auth_config_from_env_def getenv_def selected_def Let_def)

theorem C3_env_precedence_witness:
  "nonempty env_pat ''TABLEAU_SERVER_URL'' \<and>
   selected (create_auth_config_from_env env_pat) = Inr PERSONAL_ACCESS_TOKEN"
proof -
  have h: "nonempty env_pat ''TABLEAU_SERVER_URL''"
    by (simp add: nonempty_def env_pat_def truthy_def)
  have "nonempty env_pat ''TABLEAU_TOKEN_NAME'' \<and> nonempty env_pat ''TABLEAU_TOKEN_VALUE''"
    by (simp add: nonempty_def env_pat_def truthy_def)
  with C3_env_precedence [OF h] h show ?thesis by simp
qed

section \<open>Results about the retry wrappers\<close>

lemma py_range_3: "py_range 3 = [0, 1, 2]"
proof -
  have "[0..<3] = [0, 1, 2]" by (simp add: upt_rec)
  then show ?thesis by (simp add: py_range_def)
qed

text \<open>
  Claim C2: both retry wrappers, with the fixed count of three attempts. If the operation
  raises on the first two attempts and returns on the third, the wrapper returns that
  result; if it raises on all three, the wrapper raises the very exception of the third
  attempt (same class, same text); in both cases it slept twice, the second delay being
  twice the first.
\<close>

theorem C2_retry_three_attempts:
  assumes "operation s0 = (Inl e1, s1)" and "operation s1 = (Inl e2, s2)"
  shows "(operation s2 = (Inr v, s3) \<longrightarrow>
            retry_operation TableauClient_init operation s0 = (Inr (Some v), s3, [1, 2]) \<and>
            retry_on_failure operation 3 delay s0 = (Inr (Some v), s3, [delay, 2 * delay])) \<and>
         (operation s2 = (Inl e3, s3) \<longrightarrow>
            retry_operation TableauClient_init operation s0 = (Inl e3, s3, [1, 2]) \<and>
            retry_on_failure operation 3 delay s0 = (Inl e3, s3, [delay, 2 * delay]))"
  using assms
  by (simp add: retry_operation_def retry_on_failure_def TableauClient_init_def py_range_3)

theorem C2_retry_three_attempts_witness:
  "flaky 0 = (Inl (Exc VendorError ''timed out''), 1) \<and>
   flaky 1 = (Inl (Exc VendorError ''timed out''), 2) \<and>
   flaky 2 = (Inr 42, 3) \<and>
   retry_operation TableauClient_init flaky 0 = (Inr (Some 42), 3, [1, 2]) \<and>
   retry_on_failure flaky 3 (1/2) 0 = (Inr (Some 42), 3, [1/2, 1])"
proof -
  have a: "flaky 0 = (Inl (Exc VendorError ''timed out''), 1)"
    and b: "flaky 1 = (Inl (Exc VendorError ''timed out''), 2)"
    and c: "flaky 2 = (Inr 42, 3)"
    by (simp_all add: flaky_def)
  from C2_retry_three_attempts [OF a b, of 42 3 "1/2"] a b c show ?thesis by simp
qed

section \<open>Results about deleting stored metadata\<close>





section \<open>Results about the authenticator\<close>

lemma sign_out_not_signed_in:
  "\<not> is_signed_in (server self) \<Longrightarrow> sign_out net self = (Inr (), self)"
  by (simp add: sign_out_def sign_out_try_def)

lemma sign_out_signed_in:
  "is_signed_in (server self) \<Longrightarrow> sign_out net self =
     (case net (srv_requests (server self)) of
        Accepted \<Rightarrow> (Inr (), self\<lparr>server :=
            \<lparr>srv_signed_in = False, srv_requests = Suc (srv_requests (server self))\<rparr>\<rparr>)
      | Refused m \<Rightarrow> (Inl (Exc AuthenticationError (''Sign out failed: '' @ m)),
            self\<lparr>server := (server self)\<lparr>srv_requests := Suc (srv_requests (server self))\<rparr>\<rparr>))"
  by (simp add: sign_out_def sign_out_try_def auth_sign_out_def post_request_def Let_def
      split: reply.splits)

lemma sign_out_twice: "then_call (sign_out net) (sign_out net) self = sign_out net self"
proof (cases "is_signed_in (server self)")
  case False
  then show ?thesis by (simp add: then_call_def sign_out_not_signed_in)
next
  case True
  show ?thesis
  proof (cases "net (srv_requests (server self))")
    case Accepted
    with True show ?thesis
      by (simp add: then_call_def sign_out_signed_in sign_out_not_signed_in is_signed_in_def)
  next
    case (Refused m)
    with True show ?thesis by (simp add: then_call_def sign_out_signed_in)
  qed
qed

lemma sign_out_requests:
  "srv_requests (server (snd (sign_out net self))) \<le> Suc (srv_requests (server self))"
  by (cases "is_signed_in (server self)")
    (simp_all add: sign_out_not_signed_in sign_out_signed_in split: reply.splits)

lemma authenticate_requests:
  "srv_requests (server (snd (authenticate net self))) \<le> Suc (srv_requests (server self))"
  by (simp add: authenticate_def authenticate_try_def auth_sign_in_def post_request_def Let_def
      split: sum.splits reply.splits prod.splits)

text \<open>
  Claim C8. Calling \<^verbatim>\<open>sign_out\<close> when not signed in returns without changing anything;
  two calls in a row end in the same result and state as one call, whatever the server
  answers. Whatever the \<^verbatim>\<open>try\<close> block of \<^verbatim>\<open>sign_out\<close> or \<^verbatim>\<open>authenticate\<close> raises is raised
  as an AuthenticationError whose text ends with the text of the cause, and neither method
  sends more than one request (no retry).
\<close>

theorem C8_sign_out_idempotent_errors_wrapped:
  "(\<not> is_signed_in (server self) \<longrightarrow> sign_out net self = (Inr (), self)) \<and>
   then_call (sign_out net) (sign_out net) self = sign_out net self \<and>
   (sign_out_try net self = (Inl cause, self') \<longrightarrow>
      sign_out net self =
        (Inl (Exc AuthenticationError (''Sign out failed: '' @ exc_str cause)), self')) \<and>
   (authenticate_try net self = (Inl cause, self') \<longrightarrow>
      authenticate net self =
        (Inl (Exc AuthenticationError (''Authentication failed: '' @ exc_str cause)), self')) \<and>
   srv_requests (server (snd (sign_out net self))) \<le> Suc (srv_requests (server self)) \<and>
   srv_requests (server (snd (authenticate net self))) \<le> Suc (srv_requests (server self))"
  by (simp add: sign_out_not_signed_in sign_out_twice sign_out_requests authenticate_requests)
    (simp add: sign_out_def authenticate_def)

theorem C8_sign_out_idempotent_errors_wrapped_witness:
  "\<not> is_signed_in (server (TableauAuthenticator_init pat_config)) \<and>
   sign_out net_down (TableauAuthenticator_init pat_config) =
     (Inr (), TableauAuthenticator_init pat_config) \<and>
   sign_out_try net_down signed_in_authenticator =
     (Inl (Exc VendorError ''connection reset''),
      signed_in_authenticator\<lparr>server := \<lparr>srv_signed_in = True, srv_requests = 2\<rparr>\<rparr>) \<and>
   sign_out net_down signed_in_authenticator =
     (Inl (Exc AuthenticationError ''Sign out failed: connection reset''),
      signed_in_authenticator\<lparr>server := \<lparr>srv_signed_in = True, srv_requests = 2\<rparr>\<rparr>) \<and>
   authenticate_try net_down (TableauAuthenticator_init pat_config) =
     (Inl (Exc VendorError ''connection reset''),
      (TableauAuthenticator_init pat_config)\<lparr>server := \<lparr>srv_signed_in = False, srv_requests = 1\<rparr>\<rparr>) \<and>
   authenticate net_down (TableauAuthenticator_init pat_config) =
     (Inl (Exc AuthenticationError ''Authentication failed: connection reset''),
      (TableauAuthenticator_init pat_config)\<lparr>server := \<lparr>srv_signed_in = False, srv_requests = 1\<rparr>\<rparr>)"
proof -
  have a: "\<not> is_signed_in (server (TableauAuthenticator_init pat_config))"
    by (simp add: is_signed_in_def TableauAuthenticator_init_def)
  have b: "sign_out_try net_down signed_in_authenticator =
     (Inl (Exc VendorError ''connection reset''),
      signed_in_authenticator\<lparr>server := \<lparr>srv_signed_in = True, srv_requests = 2\<rparr>\<rparr>)"
    by (simp add: sign_out_try_def signed_in_authenticator_def is_signed_in_def
        auth_sign_out_def post_request_def net_down_def)
  have c: "authenticate_try net_down (TableauAuthenticator_init pat_config) =
     (Inl (Exc VendorError ''connection reset''),
      (TableauAuthenticator_init pat_config)\<lparr>server := \<lparr>srv_signed_in = False, srv_requests = 1\<rparr>\<rparr>)"
    by (simp add: authenticate_try_def TableauAuthenticator_init_def create_auth_object_def
        pat_config_def truthy_def auth_sign_in_def post_request_def net_down_def)
  from C8_sign_out_idempotent_errors_wrapped [of "TableauAuthenticator_init pat_config" net_down
      "Exc VendorError ''connection reset''"
      "(TableauAuthenticator_init pat_config)\<lparr>server := \<lparr>srv_signed_in = False, srv_requests = 1\<rparr>\<rparr>"]
    a c
  have 1: "sign_out net_down (TableauAuthenticator_init pat_config) =
       (Inr (), TableauAuthenticator_init pat_config)"
    and 2: "authenticate net_down (TableauAuthenticator_init pat_config) =
     (Inl (Exc AuthenticationError ''Authentication failed: connection reset''),
      (TableauAuthenticator_init pat_config)\<lparr>server := \<lparr>srv_signed_in = False, srv_requests = 1\<rparr>\<rparr>)"
    by simp_all
  from C8_sign_out_idempotent_errors_wrapped [of signed_in_authenticator net_down
      "Exc VendorError ''connection reset''"
      "signed_in_authenticator\<lparr>server := \<lparr>srv_signed_in = True, srv_requests = 2\<rparr>\<rparr>"] b
  have 3: "sign_out net_down signed_in_authenticator =
     (Inl (Exc AuthenticationError ''Sign out failed: connection reset''),
      signed_in_authenticator\<lparr>server := \<lparr>srv_signed_in = True, srv_requests = 2\<rparr>\<rparr>)"
    by simp
  from a b c 1 2 3 show ?thesis by blast
qed

section \<open>Results about filtering\<close>

lemma dt_ge_clash:
  "clash (Some since) (Some t) \<Longrightarrow> dt_ge t since = Inl type_error"
  by (auto simp: clash_def dt_ge_def dt_cmp_def type_error_def split: option.splits)

lemma dt_ge_no_clash:
  "\<not> clash (Some since) (Some t) \<Longrightarrow> \<exists>b. dt_ge t since = Inr b"
  by (auto simp: clash_def dt_ge_def dt_cmp_def Let_def split: option.splits)

lemma updated_at_least_char:
  "updated_at_least since upd xs =
     (if \<exists>x\<in>set xs. clash (Some since) (upd x) then Inl type_error
      else Inr (filter (\<lambda>x. not_before (Some since) (upd x)) xs))"
proof (induction xs)
  case Nil
  show ?case by simp
next
  case (Cons x xs)
  show ?case
  proof (cases "upd x")
    case None
    with Cons show ?thesis by (simp add: clash_def not_before_def)
  next
    case (Some t)
    show ?thesis
    proof (cases "clash (Some since) (Some t)")
      case True
      with Some show ?thesis by (simp add: dt_ge_clash)
    next
      case False
      then obtain b where b: "dt_ge t since = Inr b" using dt_ge_no_clash by blast
      with Some False Cons show ?thesis by (auto simp: not_before_def)
    qed
  qed
qed


lemma filter_project_names_eq:
  "filter_project_names f (fw, fd, fp, ff) =
     (filter (\<lambda>wb. in_names (project_names f) (wb_project_name wb)) fw,
      filter (\<lambda>ds. in_names (project_names f) (ds_project_name ds)) fd,
      filter (pj_keep f) fp,
      filter (\<lambda>fl. in_names (project_names f) (fl_project_name fl)) ff)"
  by (cases "project_names f") (simp_all add: filter_project_names_def in_names_def pj_keep_def [abs_def])

lemma filter_owner_names_eq:
  "filter_owner_names f (fw, fd, fp, ff) =
     (filter (\<lambda>wb. in_names (owner_names f) (wb_owner_name wb)) fw,
      filter (\<lambda>ds. in_names (owner_names f) (ds_owner_name ds)) fd,
      fp,
      filter (\<lambda>fl. in_names (owner_names f) (fl_owner_name fl)) ff)"
  by (cases "owner_names f") (simp_all add: filter_owner_names_def in_names_def)

lemma filter_tags_eq:
  "filter_tags f (fw, fd, fp, ff) =
     (filter (\<lambda>wb. has_any_tag (tags f) (wb_tags wb)) fw,
      filter (\<lambda>ds. has_any_tag (tags f) (ds_tags ds)) fd,
      fp,
      filter (\<lambda>fl. has_any_tag (tags f) (fl_tags fl)) ff)"
  by (cases "tags f") (simp_all add: filter_tags_def has_any_tag_def)

lemma filter_updated_since_eq:
  "filter_updated_since f (fw, fd, fp, ff) =
     (if (\<exists>wb\<in>set fw. clash (updated_since f) (wb_updated_at wb)) \<or>
         (\<exists>ds\<in>set fd. clash (updated_since f) (ds_updated_at ds)) \<or>
         (\<exists>fl\<in>set ff. clash (updated_since f) (fl_updated_at fl))
      then Inl type_error
      else Inr (filter (\<lambda>wb. not_before (updated_since f) (wb_updated_at wb)) fw,
                filter (\<lambda>ds. not_before (updated_since f) (ds_updated_at ds)) fd,
                fp,
                filter (\<lambda>fl. not_before (updated_since f) (fl_updated_at fl)) ff))"
proof (cases "updated_since f")
  case None
  then show ?thesis by (simp add: filter_updated_since_def clash_def not_before_def)
next
  case (Some since)
  then show ?thesis by (simp add: filter_updated_since_def updated_at_least_char)
qed

lemma static_filters_wb:
  "filter (\<lambda>wb. has_any_tag (tags f) (wb_tags wb))
     (filter (\<lambda>wb. in_names (owner_names f) (wb_owner_name wb))
       (filter (\<lambda>wb. in_names (project_names f) (wb_project_name wb)) xs)) =
   filter (wb_keep (f\<lparr>updated_since := None\<rparr>)) xs"
  by (simp add: wb_keep_def [abs_def] not_before_def cong: conj_cong)

lemma static_filters_ds:
  "filter (\<lambda>ds. has_any_tag (tags f) (ds_tags ds))
     (filter (\<lambda>ds. in_names (owner_names f) (ds_owner_name ds))
       (filter (\<lambda>ds. in_names (project_names f) (ds_project_name ds)) xs)) =
   filter (ds_keep (f\<lparr>updated_since := None\<rparr>)) xs"
  by (simp add: ds_keep_def [abs_def] not_before_def cong: conj_cong)

lemma static_filters_fl:
  "filter (\<lambda>fl. has_any_tag (tags f) (fl_tags fl))
     (filter (\<lambda>fl. in_names (owner_names f) (fl_owner_name fl))
       (filter (\<lambda>fl. in_names (project_names f) (fl_project_name fl)) xs)) =
   filter (fl_keep (f\<lparr>updated_since := None\<rparr>)) xs"
  by (simp add: fl_keep_def [abs_def] not_before_def cong: conj_cong)

lemma floor_after_static_wb:
  "filter (\<lambda>wb. not_before (updated_since f) (wb_updated_at wb))
     (filter (wb_keep (f\<lparr>updated_since := None\<rparr>)) xs) = filter (wb_keep f) xs"
  by (simp add: wb_keep_def [abs_def] not_before_def cong: conj_cong)

lemma floor_after_static_ds:
  "filter (\<lambda>ds. not_before (updated_since f) (ds_updated_at ds))
     (filter (ds_keep (f\<lparr>updated_since := None\<rparr>)) xs) = filter (ds_keep f) xs"
  by (simp add: ds_keep_def [abs_def] not_before_def cong: conj_cong)

lemma floor_after_static_fl:
  "filter (\<lambda>fl. not_before (updated_since f) (fl_updated_at fl))
     (filter (fl_keep (f\<lparr>updated_since := None\<rparr>)) xs) = filter (fl_keep f) xs"
  by (simp add: fl_keep_def [abs_def] not_before_def cong: conj_cong)

lemma rebuild_metadata:
  "\<lparr>server_url = server_url m, version = version m, rest_api_version = rest_api_version m,
    site_id = site_id m, site_name = site_name m, timestamp = timestamp m,
    workbooks = ws, datasources = ds, projects = ps, flows = fs\<rparr> =
   m\<lparr>workbooks := ws, datasources := ds, projects := ps, flows := fs\<rparr>"
  by (cases m) simp

lemma filter_metadata_try_char:
  "filter_metadata_try m f =
     (if filter_raises m f then Inl type_error else Inr (conjunction_filter m f))"
  unfolding filter_metadata_try_def Let_def filter_project_names_eq filter_owner_names_eq
    filter_tags_eq filter_updated_since_eq static_filters_wb static_filters_ds static_filters_fl
    floor_after_static_wb floor_after_static_ds floor_after_static_fl
  by (simp add: filter_raises_def conjunction_filter_def list_ex_iff rebuild_metadata
      del: set_filter)

lemma filter_metadata_char:
  "filter_metadata m f =
     (if filter_raises m f
      then Inl (Exc MetadataError (''Failed to filter metadata: '' @ exc_str type_error))
      else Inr (conjunction_filter m f))"
  by (simp add: filter_metadata_def filter_metadata_try_char)


lemma filter_raises_iff:
  "filter_raises m f \<longleftrightarrow>
     (\<exists>wb\<in>set (workbooks m). wb_keep (f\<lparr>updated_since := None\<rparr>) wb \<and>
        clash (updated_since f) (wb_updated_at wb)) \<or>
     (\<exists>ds\<in>set (datasources m). ds_keep (f\<lparr>updated_since := None\<rparr>) ds \<and>
        clash (updated_since f) (ds_updated_at ds)) \<or>
     (\<exists>fl\<in>set (flows m). fl_keep (f\<lparr>updated_since := None\<rparr>) fl \<and>
        clash (updated_since f) (fl_updated_at fl))"
  by (auto simp: filter_raises_def Let_def list_ex_iff)

lemma comparable_not_raises: "floor_comparable m f \<Longrightarrow> \<not> filter_raises m f"
  by (auto simp: filter_raises_iff floor_comparable_def list_all_iff)

lemma no_floor_not_raises: "updated_since f = None \<Longrightarrow> \<not> filter_raises m f"
  by (simp add: filter_raises_iff clash_def)

lemma in_names_union:
  "p = None \<or> q = None \<Longrightarrow>
   in_names (case p of None \<Rightarrow> q | Some v \<Rightarrow> Some v) x \<longleftrightarrow> in_names p x \<and> in_names q x"
  by (auto simp: in_names_def split: option.splits)

lemma has_any_tag_union:
  "p = None \<or> q = None \<Longrightarrow>
   has_any_tag (case p of None \<Rightarrow> q | Some v \<Rightarrow> Some v) x \<longleftrightarrow> has_any_tag p x \<and> has_any_tag q x"
  by (auto simp: has_any_tag_def split: option.splits)

lemma not_before_union:
  "p = None \<or> q = None \<Longrightarrow>
   not_before (case p of None \<Rightarrow> q | Some v \<Rightarrow> Some v) x \<longleftrightarrow> not_before p x \<and> not_before q x"
  by (auto simp: not_before_def split: option.splits)

lemma keep_union:
  assumes "disjoint_keys a b"
  shows "wb_keep (union_filters a b) wb \<longleftrightarrow> wb_keep a wb \<and> wb_keep b wb"
    and "ds_keep (union_filters a b) ds \<longleftrightarrow> ds_keep a ds \<and> ds_keep b ds"
    and "fl_keep (union_filters a b) fl \<longleftrightarrow> fl_keep a fl \<and> fl_keep b fl"
    and "pj_keep (union_filters a b) p \<longleftrightarrow> pj_keep a p \<and> pj_keep b p"
  using assms
  by (auto simp: disjoint_keys_def union_filters_def wb_keep_def ds_keep_def fl_keep_def
      pj_keep_def in_names_union has_any_tag_union not_before_union)

lemma disjoint_keys_static:
  "disjoint_keys a b \<Longrightarrow>
   disjoint_keys (a\<lparr>updated_since := None\<rparr>) (b\<lparr>updated_since := None\<rparr>)"
  by (simp add: disjoint_keys_def)

lemma union_filters_static:
  "(union_filters a b)\<lparr>updated_since := None\<rparr> =
   union_filters (a\<lparr>updated_since := None\<rparr>) (b\<lparr>updated_since := None\<rparr>)"
  by (simp add: union_filters_def split: option.splits)

lemma no_floor_static: "updated_since f = None \<Longrightarrow> f\<lparr>updated_since := None\<rparr> = f"
  by simp

lemma conjunction_filter_twice:
  assumes "disjoint_keys a b"
  shows "conjunction_filter (conjunction_filter m a) b = conjunction_filter m (union_filters a b)"
  by (simp add: conjunction_filter_def keep_union [OF assms, abs_def] cong: conj_cong)

lemma raises_union_floor_in_b:
  assumes d: "disjoint_keys a b" and n: "updated_since a = None"
  shows "filter_raises (conjunction_filter m a) b \<longleftrightarrow> filter_raises m (union_filters a b)"
proof -
  have u: "updated_since (union_filters a b) = updated_since b"
    using n by (simp add: union_filters_def)
  have s: "\<And>wb. wb_keep a wb \<and> wb_keep (b\<lparr>updated_since := None\<rparr>) wb \<longleftrightarrow>
           wb_keep ((union_filters a b)\<lparr>updated_since := None\<rparr>) wb"
       "\<And>ds. ds_keep a ds \<and> ds_keep (b\<lparr>updated_since := None\<rparr>) ds \<longleftrightarrow>
           ds_keep ((union_filters a b)\<lparr>updated_since := None\<rparr>) ds"
       "\<And>fl. fl_keep a fl \<and> fl_keep (b\<lparr>updated_since := None\<rparr>) fl \<longleftrightarrow>
           fl_keep ((union_filters a b)\<lparr>updated_since := None\<rparr>) fl"
    using keep_union [OF disjoint_keys_static [OF d]] no_floor_static [OF n]
    by (simp_all add: union_filters_static)
  show ?thesis
    unfolding filter_raises_iff u s [symmetric]
    by (auto simp: conjunction_filter_def)
qed

lemma raises_union_floor_in_a:
  assumes d: "disjoint_keys a b" and n: "updated_since b = None"
    and r: "filter_raises m (union_filters a b)"
  shows "filter_raises m a"
proof -
  have u: "updated_since (union_filters a b) = updated_since a"
    using n by (simp add: union_filters_def split: option.splits)
  have s: "\<And>wb. wb_keep ((union_filters a b)\<lparr>updated_since := None\<rparr>) wb \<Longrightarrow>
             wb_keep (a\<lparr>updated_since := None\<rparr>) wb"
       "\<And>ds. ds_keep ((union_filters a b)\<lparr>updated_since := None\<rparr>) ds \<Longrightarrow>
             ds_keep (a\<lparr>updated_since := None\<rparr>) ds"
       "\<And>fl. fl_keep ((union_filters a b)\<lparr>updated_since := None\<rparr>) fl \<Longrightarrow>
             fl_keep (a\<lparr>updated_since := None\<rparr>) fl"
    using keep_union [OF disjoint_keys_static [OF d]]
    by (simp_all add: union_filters_static)
  from r show ?thesis
    unfolding filter_raises_iff u using s by blast
qed

lemma filter_twice_floor_in_b:
  assumes d: "disjoint_keys a b" and n: "updated_since a = None"
  shows "filter_twice m a b = filter_metadata m (union_filters a b)"
  using no_floor_not_raises [OF n, of m]
  by (simp add: filter_twice_def filter_metadata_char raises_union_floor_in_b [OF d n]
      conjunction_filter_twice [OF d])

lemma filter_twice_returns:
  assumes d: "disjoint_keys a b" and r: "filter_twice m a b = Inr m2"
  shows "filter_metadata m (union_filters a b) = Inr m2"
proof (cases "updated_since a")
  case None
  with d r show ?thesis by (simp add: filter_twice_floor_in_b)
next
  case (Some since)
  with d have n: "updated_since b = None" by (simp add: disjoint_keys_def)
  from r have na: "\<not> filter_raises m a"
    by (auto simp: filter_twice_def filter_metadata_char split: if_splits)
  with r have m2: "m2 = conjunction_filter (conjunction_filter m a) b"
    by (auto simp: filter_twice_def filter_metadata_char split: if_splits)
  from na raises_union_floor_in_a [OF d n] have "\<not> filter_raises m (union_filters a b)"
    by blast
  then show ?thesis
    by (simp add: filter_metadata_char m2 conjunction_filter_twice [OF d])
qed

lemma floor_comparable_sub:
  assumes "floor_comparable m f"
    and "updated_since g = None \<or> updated_since g = updated_since f"
  shows "floor_comparable (conjunction_filter m h) g"
  using assms
  by (auto simp: floor_comparable_def conjunction_filter_def list_all_iff clash_def)

lemma filter_twice_comparable:
  assumes d: "disjoint_keys a b" and c: "floor_comparable m (union_filters a b)"
  shows "filter_twice m a b = filter_metadata m (union_filters a b)"
proof -
  have ua: "updated_since a = None \<or> updated_since a = updated_since (union_filters a b)"
    by (simp add: union_filters_def split: option.splits)
  have ub: "updated_since b = None \<or> updated_since b = updated_since (union_filters a b)"
    using d by (auto simp: union_filters_def disjoint_keys_def split: option.splits)
  have "floor_comparable m a"
    using c ua by (auto simp: floor_comparable_def list_all_iff clash_def)
  then have 1: "\<not> filter_raises m a" by (rule comparable_not_raises)
  have 2: "\<not> filter_raises (conjunction_filter m a) b"
    using floor_comparable_sub [OF c ub] by (rule comparable_not_raises)
  have 3: "\<not> filter_raises m (union_filters a b)"
    using c by (rule comparable_not_raises)
  show ?thesis
    by (simp add: filter_twice_def filter_metadata_char 1 2 3 conjunction_filter_twice [OF d])
qed

text \<open>
  Claim C5, as stated: refuted. With only an update-time floor in the dictionary, the
  project whose \<^verbatim>\<open>updated_at\<close> lies before the floor is still in the result: the floor is
  not applied to the project list.
\<close>

theorem C5_floor_not_applied_to_projects_counterexample:
  "filter_metadata md_sales (no_filters\<lparr>updated_since := Some dt_2024_utc\<rparr>) = Inr md_sales \<and>
   projects md_sales = [pj_sales] \<and>
   pj_updated_at pj_sales = Some dt_2020_utc \<and>
   dt_ge dt_2020_utc dt_2024_utc = Inr False"
  by (simp add: filter_metadata_def filter_metadata_try_def filter_project_names_def
      filter_owner_names_def filter_tags_def filter_updated_since_def no_filters_def
      md_sales_def wb_sales_def pj_sales_def dt_ge_def dt_cmp_def dt_fields_def
      dt_2020_utc_def dt_2024_utc_def)

text \<open>
  Claim C5, amended. \<^verbatim>\<open>filter_metadata\<close> raises a MetadataError exactly when an
  \<^verbatim>\<open>updated_at\<close> that it compares with the floor clashes with it, that is an
  \<^verbatim>\<open>updated_at\<close> of a workbook, data source or flow that passes the project-name,
  owner-name and tag tests; this cannot happen without a floor, nor when no \<^verbatim>\<open>updated_at\<close>
  in the metadata clashes with it. In every other case it returns the metadata with the
  workbook, data source and flow lists filtered by the conjunction of the four predicates
  (project-name membership, owner-name membership, tag intersection, update-time floor) and
  the project list filtered by project-name membership of the project's own name only. A
  predicate whose key is absent holds for every item.
\<close>

theorem C5_filter_is_conjunction:
  "filter_metadata m f =
     (if filter_raises m f
      then Inl (Exc MetadataError
        ''Failed to filter metadata: can't compare offset-naive and offset-aware datetimes'')
      else Inr (conjunction_filter m f)) \<and>
   (updated_since f = None \<longrightarrow> \<not> filter_raises m f) \<and>
   (floor_comparable m f \<longrightarrow> \<not> filter_raises m f) \<and>
   in_names None x \<and> has_any_tag None ts \<and> not_before None u"
  using comparable_not_raises [of m f] no_floor_not_raises [of f m]
  by (simp add: filter_metadata_char type_error_def in_names_def has_any_tag_def not_before_def)

theorem C5_filter_is_conjunction_witness:
  "updated_since (no_filters\<lparr>project_names := Some [''Sales''], owner_names := Some [''bob'']\<rparr>)
     = None \<and>
   filter_metadata md_sales
     (no_filters\<lparr>project_names := Some [''Sales''], owner_names := Some [''bob'']\<rparr>) =
     Inr (md_sales\<lparr>workbooks := []\<rparr>) \<and>
   \<not> floor_comparable md_sales
     (no_filters\<lparr>project_names := Some [], updated_since := Some dt_2024_naive\<rparr>) \<and>
   \<not> filter_raises md_sales
     (no_filters\<lparr>project_names := Some [], updated_since := Some dt_2024_naive\<rparr>) \<and>
   filter_metadata md_sales
     (no_filters\<lparr>project_names := Some [], updated_since := Some dt_2024_naive\<rparr>) =
     Inr (md_sales\<lparr>workbooks := [], projects := []\<rparr>) \<and>
   filter_raises md_sales (no_filters\<lparr>updated_since := Some dt_2024_naive\<rparr>) \<and>
   filter_metadata md_sales (no_filters\<lparr>updated_since := Some dt_2024_naive\<rparr>) =
     Inl (Exc MetadataError
       ''Failed to filter metadata: can't compare offset-naive and offset-aware datetimes'')"
proof -
  let ?f = "no_filters\<lparr>project_names := Some [''Sales''], owner_names := Some [''bob'']\<rparr>"
  let ?g = "no_filters\<lparr>project_names := Some [], updated_since := Some dt_2024_naive\<rparr>"
  let ?h = "no_filters\<lparr>updated_since := Some dt_2024_naive\<rparr>"
  have n: "updated_since ?f = None" by (simp add: no_filters_def)
  have v: "conjunction_filter md_sales ?f = md_sales\<lparr>workbooks := []\<rparr>"
    by (simp add: conjunction_filter_def no_filters_def md_sales_def wb_keep_def pj_keep_def
        in_names_def wb_sales_def pj_sales_def)
  have c: "\<not> floor_comparable md_sales ?g"
    by (simp add: floor_comparable_def no_filters_def clash_def md_sales_def wb_sales_def
        dt_2024_naive_def dt_2024_utc_def)
  have rg: "\<not> filter_raises md_sales ?g"
    by (simp add: filter_raises_def no_filters_def md_sales_def wb_keep_def in_names_def)
  have vg: "conjunction_filter md_sales ?g = md_sales\<lparr>workbooks := [], projects := []\<rparr>"
    by (simp add: conjunction_filter_def no_filters_def md_sales_def wb_keep_def pj_keep_def
        in_names_def)
  have rh: "filter_raises md_sales ?h"
    by (simp add: filter_raises_def no_filters_def md_sales_def wb_keep_def in_names_def
        has_any_tag_def not_before_def clash_def wb_sales_def dt_2024_naive_def dt_2024_utc_def)
  note t = C5_filter_is_conjunction [where x = "[]" and ts = "[]" and u = None]
  from t [of md_sales ?f] n have 1: "filter_metadata md_sales ?f = Inr (md_sales\<lparr>workbooks := []\<rparr>)"
    by (simp only: v simp_thms if_False)
  from t [of md_sales ?g] rg
  have 2: "filter_metadata md_sales ?g = Inr (md_sales\<lparr>workbooks := [], projects := []\<rparr>)"
    by (simp only: vg simp_thms if_False)
  from t [of md_sales ?h] rh
  have 3: "filter_metadata md_sales ?h = Inl (Exc MetadataError
       ''Failed to filter metadata: can't compare offset-naive and offset-aware datetimes'')"
    by (simp only: simp_thms if_True)
  from n 1 c rg 2 rh 3 show ?thesis by (simp only: simp_thms)
qed

text \<open>
  Claim C4, as stated: refuted. The metadata holds a workbook with an aware \<^verbatim>\<open>updated_at\<close>;
  \<open>A\<close> has a naive update-time floor and \<open>B\<close> an empty list of project names. Filtering
  with \<open>A\<close> raises, so filtering with \<open>A\<close> and then \<open>B\<close> raises; filtering with the union
  drops every workbook by project name first, compares nothing, and returns.
\<close>

theorem C4_filter_twice_raises_counterexample:
  "disjoint_keys (no_filters\<lparr>updated_since := Some dt_2024_naive\<rparr>)
     (no_filters\<lparr>project_names := Some []\<rparr>) \<and>
   filter_twice md_sales (no_filters\<lparr>updated_since := Some dt_2024_naive\<rparr>)
     (no_filters\<lparr>project_names := Some []\<rparr>) =
     Inl (Exc MetadataError
       ''Failed to filter metadata: can't compare offset-naive and offset-aware datetimes'') \<and>
   filter_metadata md_sales
     (union_filters (no_filters\<lparr>updated_since := Some dt_2024_naive\<rparr>)
        (no_filters\<lparr>project_names := Some []\<rparr>)) =
     Inr (md_sales\<lparr>workbooks := [], projects := []\<rparr>)"
  by (simp add: filter_twice_def union_filters_def disjoint_keys_def
      filter_metadata_def filter_metadata_try_def filter_project_names_def
      filter_owner_names_def filter_tags_def filter_updated_since_def no_filters_def
      md_sales_def wb_sales_def pj_sales_def dt_ge_def dt_cmp_def dt_fields_def
      dt_2024_naive_def dt_2024_utc_def)

text \<open>
  Claim C4, amended. For filter dictionaries \<open>A\<close> and \<open>B\<close> with disjoint key sets: whenever
  filtering with \<open>A\<close> and then with \<open>B\<close> returns, filtering with their union returns the
  same metadata; and the two agree in every outcome, raising included, when \<open>A\<close> has no
  update-time floor or when no \<^verbatim>\<open>updated_at\<close> in the metadata clashes with the floor.
\<close>

theorem C4_filter_twice_is_union:
  assumes "disjoint_keys a b"
  shows "(filter_twice m a b = Inr m2 \<longrightarrow> filter_metadata m (union_filters a b) = Inr m2) \<and>
         (updated_since a = None \<longrightarrow>
            filter_twice m a b = filter_metadata m (union_filters a b)) \<and>
         (floor_comparable m (union_filters a b) \<longrightarrow>
            filter_twice m a b = filter_metadata m (union_filters a b))"
  using filter_twice_returns [OF assms] filter_twice_floor_in_b [OF assms]
    filter_twice_comparable [OF assms]
  by blast

theorem C4_filter_twice_is_union_witness:
  "disjoint_keys (no_filters\<lparr>project_names := Some [''Sales'']\<rparr>)
     (no_filters\<lparr>updated_since := Some dt_2020_utc\<rparr>) \<and>
   updated_since (no_filters\<lparr>project_names := Some [''Sales'']\<rparr>) = None \<and>
   floor_comparable md_sales
     (union_filters (no_filters\<lparr>project_names := Some [''Sales'']\<rparr>)
        (no_filters\<lparr>updated_since := Some dt_2020_utc\<rparr>)) \<and>
   filter_twice md_sales (no_filters\<lparr>project_names := Some [''Sales'']\<rparr>)
     (no_filters\<lparr>updated_since := Some dt_2020_utc\<rparr>) = Inr md_sales \<and>
   filter_metadata md_sales
     (union_filters (no_filters\<lparr>project_names := Some [''Sales'']\<rparr>)
        (no_filters\<lparr>updated_since := Some dt_2020_utc\<rparr>)) = Inr md_sales"
proof -
  let ?a = "no_filters\<lparr>project_names := Some [''Sales'']\<rparr>"
  let ?b = "no_filters\<lparr>updated_since := Some dt_2020_utc\<rparr>"
  have d: "disjoint_keys ?a ?b" by (simp add: disjoint_keys_def no_filters_def)
  have n: "updated_since ?a = None" by (simp add: no_filters_def)
  have c: "floor_comparable md_sales (union_filters ?a ?b)"
    by (simp add: floor_comparable_def union_filters_def no_filters_def clash_def md_sales_def
        wb_sales_def dt_2020_utc_def dt_2024_utc_def)
  have t: "filter_twice md_sales ?a ?b = Inr md_sales"
    by (simp add: filter_twice_def filter_metadata_def filter_metadata_try_def
        filter_project_names_def filter_owner_names_def filter_tags_def
        filter_updated_since_def no_filters_def md_sales_def wb_sales_def pj_sales_def
        dt_ge_def dt_cmp_def dt_fields_def wall_micros_def dt_2020_utc_def dt_2024_utc_def)
  from C4_filter_twice_is_union [OF d, of md_sales md_sales] t
  have "filter_metadata md_sales (union_filters ?a ?b) = Inr md_sales" by simp
  with d n c t show ?thesis by simp
qed




end
